theory Spec2Isabelle
  imports Main
begin


section \<open>Strings and numbers as the Python code formats them\<close>

text \<open>
  Python strings are modelled as \<^typ>\<open>string\<close>; one \<^typ>\<open>char\<close> stands for one
  character of the Python string, so the slice \<^verbatim>\<open>s[1:]\<close> is \<^term>\<open>drop 1 s\<close>.
\<close>

definition sep :: char where
  "sep = CHR ''/''"

definition digit_char :: "nat \<Rightarrow> char" where
  "digit_char d = ''0123456789'' ! d"

text \<open>\<^verbatim>\<open>str(n)\<close> for a non-negative integer: its decimal digits, most significant first.\<close>

fun str_nat :: "nat \<Rightarrow> string" where
  "str_nat n = (if n < 10 then [digit_char n] else str_nat (n div 10) @ [digit_char (n mod 10)])"

declare str_nat.simps [simp del]

text \<open>\<^verbatim>\<open>str(i)\<close> for any integer, as an f-string formats it.\<close>

definition str_int :: "int \<Rightarrow> string" where
  "str_int i = (if i < 0 then CHR ''-'' # str_nat (nat (- i)) else str_nat (nat i))"

text \<open>
  \<^verbatim>\<open>random.randint(a, b)\<close> returns an integer \<open>N\<close> with \<open>a \<le> N \<le> b\<close>. The generator's
  state is outside the program: \<open>draw\<close> is the raw number it yields for this call.
\<close>

definition randint :: "int \<Rightarrow> int \<Rightarrow> nat \<Rightarrow> int" where
  "randint a b draw = a + int draw mod (b - a + 1)"

text \<open>
  \<^verbatim>\<open>datetime.datetime.now().strftime('%Y%m%d%H%M%S')\<close>: the six fields of the clock reading,
  zero-padded to widths 4, 2, 2, 2, 2, 2 (for a year below 1000 the padding of \<^verbatim>\<open>%Y\<close> is
  the platform's; no present clock reads one).
\<close>

record datetime =
  year :: nat
  month :: nat
  day :: nat
  hour :: nat
  minute :: nat
  second :: nat

definition zero_pad :: "nat \<Rightarrow> nat \<Rightarrow> string" where
  "zero_pad w n = replicate (w - length (str_nat n)) (CHR ''0'') @ str_nat n"

definition strftime_YmdHMS :: "datetime \<Rightarrow> string" where
  "strftime_YmdHMS d =
     zero_pad 4 (year d) @ zero_pad 2 (month d) @ zero_pad 2 (day d) @
     zero_pad 2 (hour d) @ zero_pad 2 (minute d) @ zero_pad 2 (second d)"

section \<open>pathlib: pure POSIX paths\<close>

text \<open>
  A \<^verbatim>\<open>pathlib.Path\<close> on POSIX is its root (\<open>''''\<close>, \<open>''/''\<close> or \<open>''//''\<close>) and the
  list of its components.
\<close>

record path =
  root :: string
  tail :: "string list"

text \<open>\<^verbatim>\<open>s.split('/')\<close>: always at least one piece.\<close>

fun split_sep :: "string \<Rightarrow> string list" where
  "split_sep [] = [[]]"
| "split_sep (c # cs) =
     (if c = sep then [] # split_sep cs
      else (case split_sep cs of w # ws \<Rightarrow> (c # w) # ws | [] \<Rightarrow> [[c]]))"

text \<open>\<^verbatim>\<open>'/'.join(parts)\<close>.\<close>

fun join_sep :: "string list \<Rightarrow> string" where
  "join_sep [] = []"
| "join_sep [w] = w"
| "join_sep (w # ws) = w @ sep # join_sep ws"

text \<open>
  \<^verbatim>\<open>splitroot\<close> of the POSIX flavour: exactly two leading slashes are kept as the root
  \<open>''//''\<close>, any other number of leading slashes collapses to \<open>''/''\<close>.
\<close>

definition splitroot :: "string \<Rightarrow> string \<times> string" where
  "splitroot part =
     (if part \<noteq> [] \<and> hd part = sep then
        (let stripped_part = dropWhile (\<lambda>c. c = sep) part in
         if length part - length stripped_part = 2 then ([sep, sep], stripped_part)
         else ([sep], stripped_part))
      else ([], part))"

text \<open>\<^verbatim>\<open>pathlib.Path(s)\<close>: empty components and \<open>''.''\<close> components are dropped.\<close>

definition Path :: "string \<Rightarrow> path" where
  "Path s =
     (case splitroot s of (r, rel) \<Rightarrow>
        \<lparr>root = r, tail = filter (\<lambda>x. x \<noteq> [] \<and> x \<noteq> ''.'') (split_sep rel)\<rparr>)"

text \<open>\<^verbatim>\<open>p.joinpath(s)\<close>: an absolute argument replaces the path it is joined to.\<close>

definition joinpath :: "path \<Rightarrow> string \<Rightarrow> path" where
  "joinpath p s =
     (let q = Path s in
      if root q \<noteq> [] then q else \<lparr>root = root p, tail = tail p @ tail q\<rparr>)"

text \<open>\<^verbatim>\<open>p.as_posix()\<close>, which is \<^verbatim>\<open>str(p)\<close> on POSIX: the empty path prints as \<open>''.''\<close>.\<close>

definition as_posix :: "path \<Rightarrow> string" where
  "as_posix p = (if root p = [] \<and> tail p = [] then ''.'' else root p @ join_sep (tail p))"

text \<open>\<^verbatim>\<open>p.parent\<close>: a path without components is its own parent.\<close>

definition parent :: "path \<Rightarrow> path" where
  "parent p = (if tail p = [] then p else p\<lparr>tail := butlast (tail p)\<rparr>)"

text \<open>\<^verbatim>\<open>p.name\<close>: the last component, or the empty string.\<close>

definition name :: "path \<Rightarrow> string" where
  "name p = (if tail p = [] then [] else last (tail p))"

definition is_absolute :: "path \<Rightarrow> bool" where
  "is_absolute p = (root p \<noteq> [])"

section \<open>Values that cross the boundary of the program\<close>

text \<open>The parsed body of an HTTP response, and the dictionary sent to the Jobs API.\<close>

datatype json =
    JNull
  | JBool bool
  | JNum int
  | JStr string
  | JArr "json list"
  | JObj "(string \<times> json) list"

text \<open>
  A \<^verbatim>\<open>requests.Response\<close> as far as the code looks at it: \<^verbatim>\<open>.json()\<close> yields the
  parsed body, or raises when the body is not JSON (\<open>None\<close>).
\<close>

datatype response = Response "json option"

text \<open>
  Exceptions. \<open>HTTPError msg resp\<close> is \<^verbatim>\<open>requests.exceptions.HTTPError\<close> with its
  message and its \<^verbatim>\<open>.response\<close> attribute (which may be \<^verbatim>\<open>None\<close>);
  \<open>OtherError cls msg\<close> is any exception of another class, such as
  \<^verbatim>\<open>FileNotFoundError\<close> from the file system or \<^verbatim>\<open>ConnectionError\<close> from the transport.
\<close>

datatype exn =
    HTTPError string "response option"
  | AssertionError
  | AttributeError string
  | ValueError string
  | KeyError string
  | TypeError string
  | OtherError string string

fun is_HTTPError :: "exn \<Rightarrow> bool" where
  "is_HTTPError (HTTPError _ _) = True"
| "is_HTTPError _ = False"

text \<open>
  Every interaction with the outside world, in the order the program makes it: the Context
  Provider, the clock, the random generator, the Workspace, Clusters and Jobs APIs of
  \<^verbatim>\<open>databricks_cli\<close>, and the local file system.
\<close>

datatype event =
    GetNotebookPath
  | GetNotebookClusterId
  | DatetimeNow
  | RandomRandint int int
  | ExportWorkspace string string string bool
  | ImportWorkspace string string string string bool
  | Mkdirs string
  | Unlink string
  | GetClusterIdForName string
  | JobsCreateJob json

text \<open>
  The outside world answers each call; an answer may depend on everything that happened
  before (the events so far) and on the arguments. A call that raises answers with the
  exception.
\<close>

record env =
  get_notebook_path :: "event list \<Rightarrow> exn + string"
  get_notebook_cluster_id :: "event list \<Rightarrow> exn + string"
  datetime_now :: "event list \<Rightarrow> datetime"
  random_draw :: "event list \<Rightarrow> nat"
  export_workspace :: "event list \<Rightarrow> string \<Rightarrow> string \<Rightarrow> string \<Rightarrow> bool \<Rightarrow> exn option"
  import_workspace :: "event list \<Rightarrow> string \<Rightarrow> string \<Rightarrow> string \<Rightarrow> string \<Rightarrow> bool \<Rightarrow> exn option"
  mkdirs :: "event list \<Rightarrow> string \<Rightarrow> exn option"
  unlink :: "event list \<Rightarrow> string \<Rightarrow> exn option"
  get_cluster_id_for_name :: "event list \<Rightarrow> string \<Rightarrow> exn + string"
  jobs_create_job :: "event list \<Rightarrow> json \<Rightarrow> exn + json"

section \<open>Programs: a result or an exception, and the events made\<close>

type_synonym 'a prog = "event list \<Rightarrow> (exn + 'a) \<times> event list"

definition return :: "'a \<Rightarrow> 'a prog" where
  "return x t = (Inr x, t)"

definition raise :: "exn \<Rightarrow> 'a prog" where
  "raise e t = (Inl e, t)"

text \<open>Sequencing: an exception of the first statement skips the rest.\<close>

definition bind :: "'a prog \<Rightarrow> ('a \<Rightarrow> 'b prog) \<Rightarrow> 'b prog" where
  "bind m f t = (case m t of (Inl e, t') \<Rightarrow> (Inl e, t') | (Inr x, t') \<Rightarrow> f x t')"

text \<open>
  \<^verbatim>\<open>try: body finally: cleanup\<close>. The cleanup runs whatever the body did; when the
  cleanup itself raises, that exception is the one that leaves the statement.
\<close>

definition try_finally :: "'a prog \<Rightarrow> unit prog \<Rightarrow> 'a prog" where
  "try_finally body cleanup t =
     (case body t of (r, t') \<Rightarrow>
        (case cleanup t' of (Inl e, t'') \<Rightarrow> (Inl e, t'') | (Inr _, t'') \<Rightarrow> (r, t'')))"

text \<open>
  \<^verbatim>\<open>try: body except requests.exceptions.HTTPError as _e: handler\<close>. Exceptions of other
  classes pass through.
\<close>

definition try_except_HTTPError :: "'a prog \<Rightarrow> (exn \<Rightarrow> 'a prog) \<Rightarrow> 'a prog" where
  "try_except_HTTPError body handler t =
     (case body t of
        (Inl e, t') \<Rightarrow> if is_HTTPError e then handler e t' else (Inl e, t')
      | (Inr x, t') \<Rightarrow> (Inr x, t'))"

text \<open>An external call that returns nothing, and one that returns a value.\<close>

definition call_unit :: "event \<Rightarrow> (event list \<Rightarrow> exn option) \<Rightarrow> unit prog" where
  "call_unit ev answer t =
     (case answer t of None \<Rightarrow> (Inr (), t @ [ev]) | Some e \<Rightarrow> (Inl e, t @ [ev]))"

definition call_value :: "event \<Rightarrow> (event list \<Rightarrow> exn + 'a) \<Rightarrow> 'a prog" where
  "call_value ev answer t = (answer t, t @ [ev])"

text \<open>Lifting a computation that touches nothing outside.\<close>

definition lift :: "exn + 'a \<Rightarrow> 'a prog" where
  "lift r t = (r, t)"

section \<open>DBSApi\<close>

text \<open>\<^verbatim>\<open>export_notebook\<close>, \<^verbatim>\<open>import_notebook\<close> and \<^verbatim>\<open>mkdir\<close> pass their arguments on.\<close>

definition export_notebook :: "env \<Rightarrow> string \<Rightarrow> string \<Rightarrow> string \<Rightarrow> bool \<Rightarrow> unit prog" where
  "export_notebook world source_path target_path fmt is_overwrite =
     call_unit (ExportWorkspace source_path target_path fmt is_overwrite)
       (\<lambda>t. export_workspace world t source_path target_path fmt is_overwrite)"

definition import_notebook ::
  "env \<Rightarrow> string \<Rightarrow> string \<Rightarrow> string \<Rightarrow> string \<Rightarrow> bool \<Rightarrow> unit prog" where
  "import_notebook world source_path target_path language fmt is_overwrite =
     call_unit (ImportWorkspace source_path target_path language fmt is_overwrite)
       (\<lambda>t. import_workspace world t source_path target_path language fmt is_overwrite)"

definition mkdir :: "env \<Rightarrow> string \<Rightarrow> unit prog" where
  "mkdir world dir_path = call_unit (Mkdirs dir_path) (\<lambda>t. mkdirs world t dir_path)"

text \<open>\<^verbatim>\<open>intermediate_location.unlink()\<close> of \<^verbatim>\<open>pathlib\<close>: removes the file, or raises.\<close>

definition path_unlink :: "env \<Rightarrow> path \<Rightarrow> unit prog" where
  "path_unlink world p = call_unit (Unlink (as_posix p)) (\<lambda>t. unlink world t (as_posix p))"

definition random_randint :: "env \<Rightarrow> int \<Rightarrow> int \<Rightarrow> int prog" where
  "random_randint world a b =
     call_value (RandomRandint a b) (\<lambda>t. Inr (randint a b (random_draw world t)))"

definition default_tmp_dir :: string where
  "default_tmp_dir = ''/dbfs/mnt/external/tmp/''"

definition default_runs_dir :: string where
  "default_runs_dir = ''/Shared/runs/''"

text \<open>The two local variables of \<^verbatim>\<open>backup_notebook\<close>, for the draw \<open>n\<close>.\<close>

definition tmp_name :: "int \<Rightarrow> string" where
  "tmp_name n = ''backup_'' @ str_int n"

definition intermediate_location :: "string \<Rightarrow> int \<Rightarrow> path" where
  "intermediate_location tmp_dir n = joinpath (Path tmp_dir) (tmp_name n)"

text \<open>
  \<^verbatim>\<open>backup_notebook\<close>: the export is outside the \<^verbatim>\<open>try\<close>; the import is its body and
  the \<^verbatim>\<open>unlink\<close> its \<^verbatim>\<open>finally\<close> clause. The nested calls use the defaults of
  \<^verbatim>\<open>export_notebook\<close> and \<^verbatim>\<open>import_notebook\<close>. The export is given the intermediate
  location as a string and the import is given the path object; both name the same file,
  recorded here as the string.
\<close>

definition backup_notebook :: "env \<Rightarrow> string \<Rightarrow> string \<Rightarrow> string \<Rightarrow> unit prog" where
  "backup_notebook world source_path target_path tmp_dir =
     bind (random_randint world 0 1000) (\<lambda>n.
     bind (export_notebook world source_path (as_posix (intermediate_location tmp_dir n))
             ''DBC'' False) (\<lambda>_.
     try_finally
       (import_notebook world (as_posix (intermediate_location tmp_dir n)) target_path
          ''PYTHON'' ''DBC'' False)
       (path_unlink world (intermediate_location tmp_dir n))))"

text \<open>\<^verbatim>\<open>_e.response.json()['error_code']\<close>, with the exceptions each step can raise.\<close>

definition response_json :: "exn \<Rightarrow> exn + json" where
  "response_json e =
     (case e of
        HTTPError _ None \<Rightarrow> Inl (AttributeError ''json'')
      | HTTPError _ (Some (Response None)) \<Rightarrow> Inl (ValueError ''json'')
      | HTTPError _ (Some (Response (Some j))) \<Rightarrow> Inr j
      | _ \<Rightarrow> Inl (AttributeError ''response''))"

definition subscript :: "json \<Rightarrow> string \<Rightarrow> exn + json" where
  "subscript j k =
     (case j of
        JObj kvs \<Rightarrow> (case map_of kvs k of None \<Rightarrow> Inl (KeyError k) | Some v \<Rightarrow> Inr v)
      | _ \<Rightarrow> Inl (TypeError ''subscript''))"

definition error_code_of :: "exn \<Rightarrow> exn + json" where
  "error_code_of e =
     (case response_json e of Inl x \<Rightarrow> Inl x | Inr j \<Rightarrow> subscript j ''error_code'')"

text \<open>The target of a run snapshot, from the three strings it is built of.\<close>

definition run_target_path :: "string \<Rightarrow> string \<Rightarrow> string \<Rightarrow> path" where
  "run_target_path runs_dir current_path timestamp =
     joinpath (joinpath (Path runs_dir) (drop 1 current_path)) timestamp"

definition export_current_notebook_run :: "env \<Rightarrow> string \<Rightarrow> unit prog" where
  "export_current_notebook_run world runs_dir =
     bind (call_value GetNotebookPath (get_notebook_path world)) (\<lambda>current_path.
     bind (call_value DatetimeNow (\<lambda>t. Inr (strftime_YmdHMS (datetime_now world t))))
       (\<lambda>timestamp.
     try_except_HTTPError
       (backup_notebook world current_path
          (as_posix (run_target_path runs_dir current_path timestamp)) default_tmp_dir)
       (\<lambda>e.
          bind (lift (error_code_of e)) (\<lambda>error_code.
          if error_code = JStr ''RESOURCE_DOES_NOT_EXIST'' then
            bind (mkdir world
                    (as_posix (parent (run_target_path runs_dir current_path timestamp))))
              (\<lambda>_.
            backup_notebook world current_path
              (as_posix (run_target_path runs_dir current_path timestamp)) default_tmp_dir)
          else raise e))))"

text \<open>Python's truth value of an optional string: \<^verbatim>\<open>None\<close> and \<^verbatim>\<open>''\<close> are false.\<close>

fun truthy :: "string option \<Rightarrow> bool" where
  "truthy None = False"
| "truthy (Some s) = (s \<noteq> [])"

definition json_of_optional :: "string option \<Rightarrow> json" where
  "json_of_optional x = (case x of None \<Rightarrow> JNull | Some s \<Rightarrow> JStr s)"

text \<open>The first statement of \<^verbatim>\<open>create_job\<close>: which cluster the job runs on.\<close>

definition resolve_cluster_id :: "env \<Rightarrow> string option \<Rightarrow> string option \<Rightarrow> string prog" where
  "resolve_cluster_id world cluster_name cluster_id =
     (if truthy cluster_name then
        (if cluster_id \<noteq> None then raise AssertionError
         else call_value (GetClusterIdForName (the cluster_name))
                (\<lambda>t. get_cluster_id_for_name world t (the cluster_name)))
      else if truthy cluster_id then return (the cluster_id)
      else call_value GetNotebookClusterId (get_notebook_cluster_id world))"

text \<open>The third statement: a relative notebook path is resolved, an absolute one kept.\<close>

definition resolve_notebook_path :: "env \<Rightarrow> string \<Rightarrow> string prog" where
  "resolve_notebook_path world notebook_path =
     (if \<not> is_absolute (Path notebook_path) then
        bind (call_value GetNotebookPath (get_notebook_path world)) (\<lambda>current_path.
        return (as_posix (joinpath (parent (Path current_path)) notebook_path)))
      else return notebook_path)"

definition job_json :: "string \<Rightarrow> string \<Rightarrow> string \<Rightarrow> string option \<Rightarrow> json" where
  "job_json job_name cid notebook_path notifications_email =
     JObj [(''name'', JStr job_name),
           (''existing_cluster_id'', JStr cid),
           (''notebook_task'', JObj [(''notebook_path'', JStr notebook_path)]),
           (''email_notifications'',
              JObj [(''on_success'', JArr [json_of_optional notifications_email]),
                    (''on_failure'', JArr [json_of_optional notifications_email])])]"

text \<open>A \<^verbatim>\<open>DBJob\<close>: the job id and the (so far empty) list of its runs.\<close>

record DBJob =
  job_id :: json
  runs :: "json list"

definition create_job ::
  "env \<Rightarrow> string \<Rightarrow> string option \<Rightarrow> string option \<Rightarrow> string option \<Rightarrow> string option
     \<Rightarrow> DBJob prog" where
  "create_job world notebook_path job_name cluster_name cluster_id notifications_email =
     bind (resolve_cluster_id world cluster_name cluster_id) (\<lambda>cid.
     bind (return (if truthy job_name then the job_name else notebook_path)) (\<lambda>jname.
     bind (resolve_notebook_path world notebook_path) (\<lambda>resolved.
     bind (call_value (JobsCreateJob (job_json jname cid resolved notifications_email))
             (\<lambda>t. jobs_create_job world t
                     (job_json jname cid resolved notifications_email))) (\<lambda>jobdata.
     bind (lift (subscript jobdata ''job_id'')) (\<lambda>jid.
     return \<lparr>job_id = jid, runs = []\<rparr>)))))"

section \<open>Observing a run\<close>

text \<open>The files unlinked, the directories made and the transfers attempted, in order.\<close>

fun unlink_calls :: "event list \<Rightarrow> string list" where
  "unlink_calls [] = []"
| "unlink_calls (Unlink p # t) = p # unlink_calls t"
| "unlink_calls (_ # t) = unlink_calls t"

fun mkdir_calls :: "event list \<Rightarrow> string list" where
  "mkdir_calls [] = []"
| "mkdir_calls (Mkdirs p # t) = p # mkdir_calls t"
| "mkdir_calls (_ # t) = mkdir_calls t"

text \<open>
  Every call of \<^verbatim>\<open>backup_notebook\<close> makes exactly one export call, whatever happens
  next, so the export calls count the transfer attempts.
\<close>

fun transfer_attempts :: "event list \<Rightarrow> nat" where
  "transfer_attempts [] = 0"
| "transfer_attempts (ExportWorkspace _ _ _ _ # t) = Suc (transfer_attempts t)"
| "transfer_attempts (_ # t) = transfer_attempts t"

text \<open>
  For a backup that starts after the events \<open>t\<close>: the staging file it picks, the events of
  its first steps, and what the world answers to its export, import and unlink calls.
\<close>

definition staging_file :: "env \<Rightarrow> string \<Rightarrow> event list \<Rightarrow> string" where
  "staging_file world tmp_dir t =
     as_posix (intermediate_location tmp_dir (randint 0 1000 (random_draw world t)))"

definition export_events :: "env \<Rightarrow> string \<Rightarrow> string \<Rightarrow> event list \<Rightarrow> event list" where
  "export_events world source_path tmp_dir t =
     [RandomRandint 0 1000,
      ExportWorkspace source_path (staging_file world tmp_dir t) ''DBC'' False]"

definition import_events ::
  "env \<Rightarrow> string \<Rightarrow> string \<Rightarrow> string \<Rightarrow> event list \<Rightarrow> event list" where
  "import_events world source_path target_path tmp_dir t =
     export_events world source_path tmp_dir t @
     [ImportWorkspace (staging_file world tmp_dir t) target_path ''PYTHON'' ''DBC'' False]"

definition export_outcome :: "env \<Rightarrow> string \<Rightarrow> string \<Rightarrow> event list \<Rightarrow> exn option" where
  "export_outcome world source_path tmp_dir t =
     export_workspace world (t @ [RandomRandint 0 1000]) source_path
       (staging_file world tmp_dir t) ''DBC'' False"

definition import_outcome ::
  "env \<Rightarrow> string \<Rightarrow> string \<Rightarrow> string \<Rightarrow> event list \<Rightarrow> exn option" where
  "import_outcome world source_path target_path tmp_dir t =
     import_workspace world (t @ export_events world source_path tmp_dir t)
       (staging_file world tmp_dir t) target_path ''PYTHON'' ''DBC'' False"

definition unlink_outcome ::
  "env \<Rightarrow> string \<Rightarrow> string \<Rightarrow> string \<Rightarrow> event list \<Rightarrow> exn option" where
  "unlink_outcome world source_path target_path tmp_dir t =
     unlink world (t @ import_events world source_path target_path tmp_dir t)
       (staging_file world tmp_dir t)"

text \<open>
  For a run snapshot that starts after the events \<open>t\<close> and reads \<open>current_path\<close> from the
  Context Provider: its timestamp and target, its first transfer attempt, the directory
  call that follows a missing-resource error, and the second transfer attempt.
\<close>

definition run_timestamp :: "env \<Rightarrow> event list \<Rightarrow> string" where
  "run_timestamp world t = strftime_YmdHMS (datetime_now world (t @ [GetNotebookPath]))"

definition run_target :: "env \<Rightarrow> string \<Rightarrow> string \<Rightarrow> event list \<Rightarrow> path" where
  "run_target world runs_dir current_path t =
     run_target_path runs_dir current_path (run_timestamp world t)"

definition first_attempt ::
  "env \<Rightarrow> string \<Rightarrow> string \<Rightarrow> event list \<Rightarrow> (exn + unit) \<times> event list" where
  "first_attempt world runs_dir current_path t =
     backup_notebook world current_path (as_posix (run_target world runs_dir current_path t))
       default_tmp_dir (t @ [GetNotebookPath, DatetimeNow])"

text \<open>The state \<open>NEEDS_DIR\<close>: the attempt raised a remote error with the one handled code.\<close>

definition needs_dir :: "exn + unit \<Rightarrow> bool" where
  "needs_dir r =
     (case r of
        Inl e \<Rightarrow> is_HTTPError e \<and> error_code_of e = Inr (JStr ''RESOURCE_DOES_NOT_EXIST'')
      | Inr _ \<Rightarrow> False)"

definition mkdir_event :: "env \<Rightarrow> string \<Rightarrow> string \<Rightarrow> event list \<Rightarrow> event" where
  "mkdir_event world runs_dir current_path t =
     Mkdirs (as_posix (parent (run_target world runs_dir current_path t)))"

definition mkdir_outcome :: "env \<Rightarrow> string \<Rightarrow> string \<Rightarrow> event list \<Rightarrow> exn option" where
  "mkdir_outcome world runs_dir current_path t =
     mkdirs world (snd (first_attempt world runs_dir current_path t))
       (as_posix (parent (run_target world runs_dir current_path t)))"

definition second_attempt ::
  "env \<Rightarrow> string \<Rightarrow> string \<Rightarrow> event list \<Rightarrow> (exn + unit) \<times> event list" where
  "second_attempt world runs_dir current_path t =
     backup_notebook world current_path (as_posix (run_target world runs_dir current_path t))
       default_tmp_dir
       (snd (first_attempt world runs_dir current_path t) @
          [mkdir_event world runs_dir current_path t])"

section \<open>Concrete worlds\<close>

text \<open>15 January 2024, 09:30:00.\<close>

definition snapshot_time :: datetime where
  "snapshot_time = \<lparr>year = 2024, month = 1, day = 15, hour = 9, minute = 30, second = 0\<rparr>"

text \<open>A world in which every call succeeds; the generator always draws 7.\<close>

definition calm_world :: env where
  "calm_world =
     \<lparr>get_notebook_path = (\<lambda>t. Inr ''/Users/a/nb''),
      get_notebook_cluster_id = (\<lambda>t. Inr ''0101-120000-abc''),
      datetime_now = (\<lambda>t. snapshot_time),
      random_draw = (\<lambda>t. 7),
      export_workspace = (\<lambda>t source_path target_path fmt is_overwrite. None),
      import_workspace = (\<lambda>t source_path target_path language fmt is_overwrite. None),
      mkdirs = (\<lambda>t dir_path. None),
      unlink = (\<lambda>t p. None),
      get_cluster_id_for_name = (\<lambda>t cluster_name. Inr ''0202-130000-xyz''),
      jobs_create_job = (\<lambda>t j. Inr (JObj [(''job_id'', JNum 42)]))\<rparr>"

text \<open>The error the remote API answers with, for a given error code.\<close>

definition remote_error :: "string \<Rightarrow> exn" where
  "remote_error code =
     HTTPError ''400 Client Error''
       (Some (Response (Some (JObj [(''error_code'', JStr code)]))))"

text \<open>A world in which the target already holds a notebook, so every import is refused.\<close>

definition import_fails_world :: env where
  "import_fails_world =
     calm_world\<lparr>import_workspace :=
       (\<lambda>t source_path target_path language fmt is_overwrite.
          Some (remote_error ''RESOURCE_ALREADY_EXISTS''))\<rparr>"

text \<open>
  The same, and the staging file is gone by the time it is unlinked (another caller that
  drew the same name has removed it).
\<close>

definition unlink_fails_world :: env where
  "unlink_fails_world =
     import_fails_world\<lparr>unlink :=
       (\<lambda>t p. Some (OtherError ''FileNotFoundError'' ''No such file or directory''))\<rparr>"

text \<open>A world in which the source notebook does not exist, so every export is refused.\<close>

definition export_fails_world :: env where
  "export_fails_world =
     calm_world\<lparr>export_workspace :=
       (\<lambda>t source_path target_path fmt is_overwrite.
          Some (remote_error ''RESOURCE_DOES_NOT_EXIST''))\<rparr>"

text \<open>A world in which the import keeps answering that the resource does not exist.\<close>

definition always_missing_world :: env where
  "always_missing_world =
     calm_world\<lparr>import_workspace :=
       (\<lambda>t source_path target_path language fmt is_overwrite.
          Some (remote_error ''RESOURCE_DOES_NOT_EXIST''))\<rparr>"

text \<open>A world in which the import is refused until a directory has been made.\<close>

definition missing_dir_world :: env where
  "missing_dir_world =
     calm_world\<lparr>import_workspace :=
       (\<lambda>t source_path target_path language fmt is_overwrite.
          if mkdir_calls t = [] then Some (remote_error ''RESOURCE_DOES_NOT_EXIST'')
          else None)\<rparr>"

text \<open>A world in which the running notebook is \<open>/x/y/z\<close>.\<close>

definition job_world :: env where
  "job_world = calm_world\<lparr>get_notebook_path := (\<lambda>t. Inr ''/x/y/z'')\<rparr>"

section \<open>Facts about paths and formatted numbers\<close>

lemma split_sep_no_sep: "sep \<notin> set s \<Longrightarrow> split_sep s = [s]"
  by (induction s) auto

lemma root_Path:
  "root (Path s) =
     (if s \<noteq> [] \<and> hd s = sep then
        (if length s - length (dropWhile (\<lambda>c. c = sep) s) = 2 then [sep, sep] else [sep])
      else [])"
  by (simp add: Path_def splitroot_def Let_def)

lemma is_absolute_Path: "is_absolute (Path s) = (s \<noteq> [] \<and> hd s = sep)"
  by (simp add: is_absolute_def root_Path)

text \<open>A string without a slash, other than the empty string and a dot, is one component.\<close>

lemma Path_component:
  assumes "sep \<notin> set s" "s \<noteq> []" "s \<noteq> ''.''"
  shows "Path s = \<lparr>root = [], tail = [s]\<rparr>"
proof -
  from assms have "hd s \<noteq> sep" by (cases s) auto
  then have "splitroot s = ([], s)" by (simp add: splitroot_def)
  with assms show ?thesis by (simp add: Path_def split_sep_no_sep)
qed

lemma digit_char_in: "d < 10 \<Longrightarrow> digit_char d \<in> set ''0123456789''"
  unfolding digit_char_def by (rule nth_mem) simp

lemma str_nat_digits: "set (str_nat n) \<subseteq> set ''0123456789''"
proof (induction n rule: str_nat.induct)
  case (1 n)
  show ?case
  proof (cases "n < 10")
    case True
    then show ?thesis using digit_char_in [of n] by (subst str_nat.simps) simp
  next
    case False
    have "n mod 10 < 10" by simp
    then have "digit_char (n mod 10) \<in> set ''0123456789''" by (rule digit_char_in)
    with False 1 show ?thesis by (subst str_nat.simps) simp
  qed
qed

lemma str_nat_nonempty: "str_nat n \<noteq> []"
  by (subst str_nat.simps) simp

lemma length_zero_pad: "w \<le> length (zero_pad w n)"
  by (simp add: zero_pad_def)

lemma zero_pad_digits: "set (zero_pad w n) \<subseteq> set ''0123456789''"
  using str_nat_digits [of n] by (auto simp: zero_pad_def)

lemma strftime_digits: "set (strftime_YmdHMS d) \<subseteq> set ''0123456789''"
  unfolding strftime_YmdHMS_def
  using zero_pad_digits [of 4 "year d"] zero_pad_digits [of 2 "month d"]
    zero_pad_digits [of 2 "day d"] zero_pad_digits [of 2 "hour d"]
    zero_pad_digits [of 2 "minute d"] zero_pad_digits [of 2 "second d"]
  by (simp only: set_append Un_subset_iff)

lemma length_strftime: "14 \<le> length (strftime_YmdHMS d)"
  unfolding strftime_YmdHMS_def
  using length_zero_pad [of 4 "year d"] length_zero_pad [of 2 "month d"]
    length_zero_pad [of 2 "day d"] length_zero_pad [of 2 "hour d"]
    length_zero_pad [of 2 "minute d"] length_zero_pad [of 2 "second d"]
  by (simp only: length_append)

text \<open>The timestamp is a single path component, whatever the clock says.\<close>

lemma Path_strftime: "Path (strftime_YmdHMS d) = \<lparr>root = [], tail = [strftime_YmdHMS d]\<rparr>"
proof (rule Path_component)
  show "sep \<notin> set (strftime_YmdHMS d)" using strftime_digits [of d] by (auto simp: sep_def)
  show "strftime_YmdHMS d \<noteq> []" using length_strftime [of d] by auto
  show "strftime_YmdHMS d \<noteq> ''.''" using length_strftime [of d] by auto
qed

lemma tmp_name_chars: "sep \<notin> set (tmp_name n)"
  using str_nat_digits [of "nat n"] str_nat_digits [of "nat (- n)"]
  by (auto simp: tmp_name_def str_int_def sep_def)

lemma Path_tmp_name: "Path (tmp_name n) = \<lparr>root = [], tail = [tmp_name n]\<rparr>"
  by (rule Path_component) (simp_all add: tmp_name_chars, simp_all add: tmp_name_def)

lemma intermediate_location_eq:
  "intermediate_location tmp_dir n =
     \<lparr>root = root (Path tmp_dir), tail = tail (Path tmp_dir) @ [tmp_name n]\<rparr>"
  by (simp add: intermediate_location_def joinpath_def Path_tmp_name)

lemma randint_range:
  assumes "a \<le> b"
  shows "a \<le> randint a b r \<and> randint a b r \<le> b"
proof -
  from assms have pos: "0 < b - a + 1" by simp
  then have lo: "0 \<le> int r mod (b - a + 1)" by (rule pos_mod_sign)
  from pos have hi: "int r mod (b - a + 1) < b - a + 1" by (rule pos_mod_bound)
  from lo hi show ?thesis unfolding randint_def by linarith
qed

lemma join_sep_snoc: "xs \<noteq> [] \<Longrightarrow> join_sep (xs @ [x]) = join_sep xs @ sep # x"
  by (induction xs rule: join_sep.induct) simp_all

lemmas path_defs = intermediate_location_def tmp_name_def joinpath_def Path_def
  splitroot_def as_posix_def parent_def name_def is_absolute_def sep_def str_int_def randint_def
  digit_char_def default_tmp_dir_def default_runs_dir_def run_target_path_def

lemma str_nat_7: "str_nat 7 = ''7''"
  by (simp add: str_nat.simps digit_char_def)

section \<open>Facts about the observations\<close>

lemma unlink_calls_append: "unlink_calls (a @ b) = unlink_calls a @ unlink_calls b"
  by (induction a rule: unlink_calls.induct) simp_all

lemma mkdir_calls_append: "mkdir_calls (a @ b) = mkdir_calls a @ mkdir_calls b"
  by (induction a rule: mkdir_calls.induct) simp_all

lemma transfer_attempts_append:
  "transfer_attempts (a @ b) = transfer_attempts a + transfer_attempts b"
  by (induction a rule: transfer_attempts.induct) simp_all

text \<open>The three ways a backup can go, read off the program.\<close>

lemma backup_notebook_unfold:
  "backup_notebook world source_path target_path tmp_dir t =
     (case export_outcome world source_path tmp_dir t of
        Some e \<Rightarrow> (Inl e, t @ export_events world source_path tmp_dir t)
      | None \<Rightarrow>
          (case unlink_outcome world source_path target_path tmp_dir t of
             Some e \<Rightarrow> Inl e
           | None \<Rightarrow>
               (case import_outcome world source_path target_path tmp_dir t of
                  Some e \<Rightarrow> Inl e
                | None \<Rightarrow> Inr ()),
           t @ import_events world source_path target_path tmp_dir t @
             [Unlink (staging_file world tmp_dir t)]))"
  by (simp add: backup_notebook_def bind_def try_finally_def random_randint_def
      export_notebook_def import_notebook_def path_unlink_def call_unit_def call_value_def
      export_outcome_def import_outcome_def unlink_outcome_def export_events_def
      import_events_def staging_file_def split: option.splits)

text \<open>The ways a run snapshot can go, read off the program.\<close>

lemma run_unfold:
  "export_current_notebook_run world runs_dir t =
     (case get_notebook_path world t of
        Inl x \<Rightarrow> (Inl x, t @ [GetNotebookPath])
      | Inr current_path \<Rightarrow>
          (case fst (first_attempt world runs_dir current_path t) of
             Inr u \<Rightarrow> first_attempt world runs_dir current_path t
           | Inl e \<Rightarrow>
               if \<not> is_HTTPError e then first_attempt world runs_dir current_path t
               else (case error_code_of e of
                       Inl x \<Rightarrow> (Inl x, snd (first_attempt world runs_dir current_path t))
                     | Inr code \<Rightarrow>
                         if code = JStr ''RESOURCE_DOES_NOT_EXIST'' then
                           (case mkdir_outcome world runs_dir current_path t of
                              Some x \<Rightarrow> (Inl x, snd (first_attempt world runs_dir current_path t) @
                                            [mkdir_event world runs_dir current_path t])
                            | None \<Rightarrow> second_attempt world runs_dir current_path t)
                         else first_attempt world runs_dir current_path t)))"
  by (simp add: export_current_notebook_run_def bind_def call_value_def try_except_HTTPError_def
      lift_def raise_def mkdir_def call_unit_def first_attempt_def second_attempt_def
      mkdir_outcome_def mkdir_event_def run_target_def run_timestamp_def
      split: sum.splits prod.splits option.splits)

lemma backup_notebook_attempts:
  "transfer_attempts (snd (backup_notebook world source_path target_path tmp_dir t)) =
     Suc (transfer_attempts t)"
  by (simp add: backup_notebook_unfold transfer_attempts_append export_events_def
      import_events_def split: option.splits)

lemma backup_notebook_mkdir_calls:
  "mkdir_calls (snd (backup_notebook world source_path target_path tmp_dir t)) = mkdir_calls t"
  by (simp add: backup_notebook_unfold mkdir_calls_append export_events_def
      import_events_def split: option.splits)

lemma first_attempt_attempts:
  "transfer_attempts (snd (first_attempt world runs_dir current_path t)) =
     Suc (transfer_attempts t)"
  by (simp add: first_attempt_def backup_notebook_attempts transfer_attempts_append)

lemma second_attempt_attempts:
  "transfer_attempts (snd (second_attempt world runs_dir current_path t)) =
     Suc (Suc (transfer_attempts t))"
  by (simp add: second_attempt_def backup_notebook_attempts transfer_attempts_append
      first_attempt_attempts mkdir_event_def)

lemma backup_notebook_extends:
  "\<exists>new. snd (backup_notebook world source_path target_path tmp_dir t) = t @ new"
  by (simp add: backup_notebook_unfold split: option.splits)

lemma parent_run_target_path:
  "parent (run_target_path runs_dir current_path (strftime_YmdHMS d)) =
     joinpath (Path runs_dir) (drop 1 current_path)"
  by (simp add: run_target_path_def joinpath_def [of _ "strftime_YmdHMS d"] Path_strftime
      parent_def)

lemma run_extends_first:
  assumes "get_notebook_path world t = Inr current_path"
  shows "\<exists>new. snd (export_current_notebook_run world runs_dir t) =
           snd (first_attempt world runs_dir current_path t) @ new"
proof -
  obtain new2 where "snd (second_attempt world runs_dir current_path t) =
      (snd (first_attempt world runs_dir current_path t) @
         [mkdir_event world runs_dir current_path t]) @ new2"
    unfolding second_attempt_def using backup_notebook_extends by blast
  with assms show ?thesis
    by (auto simp: run_unfold split: sum.splits option.splits)
qed

section \<open>The concrete worlds, evaluated\<close>

lemma strftime_example:
  "strftime_YmdHMS snapshot_time = ''20240115093000''"
  by (simp add: snapshot_time_def strftime_YmdHMS_def zero_pad_def str_nat.simps digit_char_def)

lemma target_example:
  "as_posix (run_target_path default_runs_dir ''/Users/a/nb'' ''20240115093000'') =
     ''/Shared/runs/Users/a/nb/20240115093000''"
  by (simp add: path_defs)

lemma parent_example:
  "as_posix (parent (run_target_path default_runs_dir ''/Users/a/nb'' ''20240115093000'')) =
     ''/Shared/runs/Users/a/nb''"
  by (simp add: path_defs)

lemma staging_example:
  "as_posix (intermediate_location default_tmp_dir (randint 0 1000 7)) =
     ''/dbfs/mnt/external/tmp/backup_7''"
  by (simp add: path_defs str_nat_7)

lemmas world_defs = calm_world_def import_fails_world_def unlink_fails_world_def
  export_fails_world_def always_missing_world_def missing_dir_world_def job_world_def

lemmas run_defs = first_attempt_def second_attempt_def mkdir_outcome_def mkdir_event_def
  run_target_def run_timestamp_def export_outcome_def import_outcome_def unlink_outcome_def
  export_events_def import_events_def staging_file_def

lemma error_code_remote_error: "error_code_of (remote_error code) = Inr (JStr code)"
  by (simp add: error_code_of_def response_json_def subscript_def remote_error_def)

lemma is_HTTPError_remote_error: "is_HTTPError (remote_error code)"
  by (simp add: remote_error_def)

lemma first_always_missing:
  "first_attempt always_missing_world default_runs_dir ''/Users/a/nb'' [] =
     (Inl (remote_error ''RESOURCE_DOES_NOT_EXIST''),
      [GetNotebookPath, DatetimeNow, RandomRandint 0 1000,
       ExportWorkspace ''/Users/a/nb'' ''/dbfs/mnt/external/tmp/backup_7'' ''DBC'' False,
       ImportWorkspace ''/dbfs/mnt/external/tmp/backup_7''
         ''/Shared/runs/Users/a/nb/20240115093000'' ''PYTHON'' ''DBC'' False,
       Unlink ''/dbfs/mnt/external/tmp/backup_7''])"
  by (simp add: backup_notebook_unfold run_defs world_defs strftime_example target_example
      staging_example)

lemma second_always_missing:
  "second_attempt always_missing_world default_runs_dir ''/Users/a/nb'' [] = 
  (Inl (remote_error ''RESOURCE_DOES_NOT_EXIST''),
     [GetNotebookPath, DatetimeNow, RandomRandint 0 1000,
      ExportWorkspace ''/Users/a/nb'' ''/dbfs/mnt/external/tmp/backup_7'' ''DBC'' False,
      ImportWorkspace ''/dbfs/mnt/external/tmp/backup_7''
        ''/Shared/runs/Users/a/nb/20240115093000'' ''PYTHON'' ''DBC'' False,
      Unlink ''/dbfs/mnt/external/tmp/backup_7'',
      Mkdirs ''/Shared/runs/Users/a/nb'',
      RandomRandint 0 1000,
      ExportWorkspace ''/Users/a/nb'' ''/dbfs/mnt/external/tmp/backup_7'' ''DBC'' False,
      ImportWorkspace ''/dbfs/mnt/external/tmp/backup_7''
        ''/Shared/runs/Users/a/nb/20240115093000'' ''PYTHON'' ''DBC'' False,
      Unlink ''/dbfs/mnt/external/tmp/backup_7''])"
  by (simp add: backup_notebook_unfold run_defs world_defs strftime_example target_example
      parent_example staging_example)

lemma staging_import_fails:
  "staging_file import_fails_world default_tmp_dir t = ''/dbfs/mnt/external/tmp/backup_7''"
  by (simp add: staging_file_def world_defs staging_example)

lemma staging_export_fails:
  "staging_file export_fails_world default_tmp_dir t = ''/dbfs/mnt/external/tmp/backup_7''"
  by (simp add: staging_file_def world_defs staging_example)

text \<open>The calls of \<^verbatim>\<open>create_job\<close> once the cluster is settled, read off the program.\<close>

lemma create_job_unfold:
  assumes "resolve_cluster_id world cluster_name cluster_id t = (Inr cid, t1)"
  shows "snd (create_job world notebook_path job_name cluster_name cluster_id
                notifications_email t) =
     (if is_absolute (Path notebook_path) then
        t1 @ [JobsCreateJob
                (job_json (if truthy job_name then the job_name else notebook_path) cid
                   notebook_path notifications_email)]
      else
        (case get_notebook_path world t1 of
           Inl x \<Rightarrow> t1 @ [GetNotebookPath]
         | Inr current_path \<Rightarrow>
             t1 @ [GetNotebookPath,
                   JobsCreateJob
                     (job_json (if truthy job_name then the job_name else notebook_path) cid
                        (as_posix (joinpath (parent (Path current_path)) notebook_path))
                        notifications_email)]))"
  using assms
  by (simp add: create_job_def bind_def return_def resolve_notebook_path_def call_value_def
      lift_def split: sum.splits prod.splits)

lemma joinpath_parent_relative:
  assumes "\<not> is_absolute (Path notebook_path)"
  shows "joinpath (parent (Path current_path)) notebook_path =
     \<lparr>root = root (Path current_path),
      tail = butlast (tail (Path current_path)) @ tail (Path notebook_path)\<rparr>"
  using assms by (simp add: joinpath_def parent_def is_absolute_def)

lemma hd_as_posix_absolute:
  assumes "root p = [sep] \<or> root p = [sep, sep]"
  shows "as_posix p \<noteq> [] \<and> hd (as_posix p) = sep"
  using assms by (auto simp: as_posix_def)

lemma root_Path_cases: "root (Path s) = [] \<or> root (Path s) = [sep] \<or> root (Path s) = [sep, sep]"
  by (simp add: root_Path)

lemma resolved_is_absolute:
  assumes "\<not> is_absolute (Path notebook_path)" and "is_absolute (Path current_path)"
  shows "as_posix (joinpath (parent (Path current_path)) notebook_path) \<noteq> []
       \<and> hd (as_posix (joinpath (parent (Path current_path)) notebook_path)) = sep"
proof (rule hd_as_posix_absolute)
  from assms(2) root_Path_cases [of current_path]
  have "root (Path current_path) = [sep] \<or> root (Path current_path) = [sep, sep]"
    by (auto simp: is_absolute_def)
  then show "root (joinpath (parent (Path current_path)) notebook_path) = [sep]
      \<or> root (joinpath (parent (Path current_path)) notebook_path) = [sep, sep]"
    by (simp add: joinpath_parent_relative [OF assms(1)])
qed

lemma resolve_example: "as_posix (joinpath (parent (Path ''/x/y/z'')) ''foo/bar'') = ''/x/y/foo/bar''"
  by (simp add: path_defs)

lemma relative_example: "\<not> is_absolute (Path ''foo/bar'')"
  by (simp add: is_absolute_Path sep_def)

lemma cluster_job_world: "resolve_cluster_id job_world None None [] =
    (Inr ''0101-120000-abc'', [GetNotebookClusterId])"
  by (simp add: resolve_cluster_id_def call_value_def world_defs)

section \<open>Notebook Transfer\<close>

text \<open>
  C1, as the code has it. For every call of \<^verbatim>\<open>backup_notebook\<close> in which the export
  succeeds, the events of the call are the draw, the export, the import and one unlink of
  the staging file, in this order, whether the import succeeds or fails: the deletion is
  attempted exactly once. When the unlink returns, the result of the call is the result
  of the import, so an import error reaches the caller; when the unlink itself raises,
  its exception is the one that reaches the caller.
\<close>

theorem backup_notebook_cleanup:
  assumes "export_outcome world source_path tmp_dir t = None"
  shows "snd (backup_notebook world source_path target_path tmp_dir t) =
           t @ import_events world source_path target_path tmp_dir t @
             [Unlink (staging_file world tmp_dir t)]
       \<and> unlink_calls (snd (backup_notebook world source_path target_path tmp_dir t)) =
           unlink_calls t @ [staging_file world tmp_dir t]
       \<and> (unlink_outcome world source_path target_path tmp_dir t = None \<longrightarrow>
            fst (backup_notebook world source_path target_path tmp_dir t) =
              (case import_outcome world source_path target_path tmp_dir t of
                 Some e \<Rightarrow> Inl e | None \<Rightarrow> Inr ()))
       \<and> (\<forall>e. unlink_outcome world source_path target_path tmp_dir t = Some e \<longrightarrow>
            fst (backup_notebook world source_path target_path tmp_dir t) = Inl e)"
  using assms
  by (simp add: backup_notebook_unfold unlink_calls_append import_events_def export_events_def)

theorem backup_notebook_cleanup_witness:
  "export_outcome import_fails_world ''/a/b'' default_tmp_dir [] = None
   \<and> unlink_outcome import_fails_world ''/a/b'' ''/c/d'' default_tmp_dir [] = None
   \<and> import_outcome import_fails_world ''/a/b'' ''/c/d'' default_tmp_dir [] =
        Some (remote_error ''RESOURCE_ALREADY_EXISTS'')
   \<and> unlink_calls (snd (backup_notebook import_fails_world ''/a/b'' ''/c/d'' default_tmp_dir []))
        = [''/dbfs/mnt/external/tmp/backup_7'']
   \<and> fst (backup_notebook import_fails_world ''/a/b'' ''/c/d'' default_tmp_dir []) =
        Inl (remote_error ''RESOURCE_ALREADY_EXISTS'')"
proof -
  have ex: "export_outcome import_fails_world ''/a/b'' default_tmp_dir [] = None"
    by (simp add: export_outcome_def import_fails_world_def calm_world_def)
  have un: "unlink_outcome import_fails_world ''/a/b'' ''/c/d'' default_tmp_dir [] = None"
    by (simp add: unlink_outcome_def import_fails_world_def calm_world_def)
  have im: "import_outcome import_fails_world ''/a/b'' ''/c/d'' default_tmp_dir [] =
        Some (remote_error ''RESOURCE_ALREADY_EXISTS'')"
    by (simp add: import_outcome_def import_fails_world_def calm_world_def)
  from backup_notebook_cleanup [OF ex, of "''/c/d''"] un im staging_import_fails [of "[]"]
  show ?thesis using ex by (simp add: import_events_def export_events_def)
qed

text \<open>
  C1, as the claim words it, fails where the unlink raises: the export succeeds, the
  import is refused with a remote error, the staging file is already gone, and the caller
  sees the \<^verbatim>\<open>FileNotFoundError\<close> of the unlink, not the remote error of the import.
\<close>

theorem backup_notebook_import_error_masked:
  "export_outcome unlink_fails_world ''/a/b'' default_tmp_dir [] = None
   \<and> import_outcome unlink_fails_world ''/a/b'' ''/c/d'' default_tmp_dir [] =
        Some (remote_error ''RESOURCE_ALREADY_EXISTS'')
   \<and> fst (backup_notebook unlink_fails_world ''/a/b'' ''/c/d'' default_tmp_dir []) \<noteq>
        Inl (remote_error ''RESOURCE_ALREADY_EXISTS'')
   \<and> fst (backup_notebook unlink_fails_world ''/a/b'' ''/c/d'' default_tmp_dir []) =
        Inl (OtherError ''FileNotFoundError'' ''No such file or directory'')"
  by (simp add: backup_notebook_unfold export_outcome_def import_outcome_def unlink_outcome_def
      unlink_fails_world_def import_fails_world_def calm_world_def remote_error_def)

text \<open>
  C2. For every call of \<^verbatim>\<open>backup_notebook\<close> in which the export fails, the call ends
  there: its events are the draw and the export, no unlink is attempted, and the
  exception of the export reaches the caller.
\<close>

theorem backup_notebook_export_fails:
  assumes "export_outcome world source_path tmp_dir t = Some e"
  shows "backup_notebook world source_path target_path tmp_dir t =
           (Inl e, t @ [RandomRandint 0 1000,
                        ExportWorkspace source_path (staging_file world tmp_dir t) ''DBC'' False])
       \<and> unlink_calls (snd (backup_notebook world source_path target_path tmp_dir t)) =
           unlink_calls t"
  using assms
  by (simp add: backup_notebook_unfold unlink_calls_append export_events_def)

theorem backup_notebook_export_fails_witness:
  "export_outcome export_fails_world ''/a/b'' default_tmp_dir [] =
     Some (remote_error ''RESOURCE_DOES_NOT_EXIST'')
   \<and> backup_notebook export_fails_world ''/a/b'' ''/c/d'' default_tmp_dir [] =
       (Inl (remote_error ''RESOURCE_DOES_NOT_EXIST''),
        [RandomRandint 0 1000,
         ExportWorkspace ''/a/b'' ''/dbfs/mnt/external/tmp/backup_7'' ''DBC'' False])
   \<and> unlink_calls (snd (backup_notebook export_fails_world ''/a/b'' ''/c/d'' default_tmp_dir []))
       = []"
proof -
  have ex: "export_outcome export_fails_world ''/a/b'' default_tmp_dir [] =
     Some (remote_error ''RESOURCE_DOES_NOT_EXIST'')"
    by (simp add: export_outcome_def export_fails_world_def calm_world_def)
  from backup_notebook_export_fails [OF ex, of "''/c/d''"] staging_export_fails [of "[]"] ex
  show ?thesis by simp
qed

text \<open>
  C7. For every call of \<^verbatim>\<open>backup_notebook\<close> with staging directory \<open>tmp_dir\<close>, the
  number \<open>n\<close> drawn lies between 0 and 1000, and the call starts with the draw and the
  export to the intermediate path, which is \<open>tmp_dir\<close> joined with \<open>backup_n\<close>: its
  parent is \<open>tmp_dir\<close>, its name is \<open>backup_\<close> followed by the decimal digits of
  \<open>n\<close>, and when \<open>tmp_dir\<close> has components it prints as \<open>tmp_dir\<close>, a slash and that
  name. No call precedes the export that could detect a collision. Every number from 0
  to 1000 can be drawn.
\<close>

theorem backup_notebook_intermediate_path:
  assumes "n = randint 0 1000 (random_draw world t)"
  shows "0 \<le> n \<and> n \<le> 1000
       \<and> take 2 (drop (length t)
            (snd (backup_notebook world source_path target_path tmp_dir t))) =
           [RandomRandint 0 1000,
            ExportWorkspace source_path (as_posix (intermediate_location tmp_dir n))
              ''DBC'' False]
       \<and> parent (intermediate_location tmp_dir n) = Path tmp_dir
       \<and> name (intermediate_location tmp_dir n) = ''backup_'' @ str_nat (nat n)
       \<and> (tail (Path tmp_dir) \<noteq> [] \<longrightarrow>
            as_posix (intermediate_location tmp_dir n) =
              as_posix (Path tmp_dir) @ ''/backup_'' @ str_nat (nat n))
       \<and> (\<forall>k \<le> 1000. randint 0 1000 k = int k)"
proof -
  from assms have range: "0 \<le> n \<and> n \<le> 1000"
    using randint_range [of 0 1000 "random_draw world t"] by simp
  then have nm: "tmp_name n = ''backup_'' @ str_nat (nat n)"
    by (simp add: tmp_name_def str_int_def)
  have events: "take 2 (drop (length t)
        (snd (backup_notebook world source_path target_path tmp_dir t))) =
      [RandomRandint 0 1000,
       ExportWorkspace source_path (as_posix (intermediate_location tmp_dir n)) ''DBC'' False]"
    using assms
    by (simp add: backup_notebook_unfold export_events_def import_events_def staging_file_def
        split: option.splits)
  have par: "parent (intermediate_location tmp_dir n) = Path tmp_dir"
    by (simp add: intermediate_location_eq parent_def)
  have nam: "name (intermediate_location tmp_dir n) = ''backup_'' @ str_nat (nat n)"
    by (simp add: intermediate_location_eq name_def nm)
  have str: "as_posix (intermediate_location tmp_dir n) =
      as_posix (Path tmp_dir) @ ''/backup_'' @ str_nat (nat n)"
    if "tail (Path tmp_dir) \<noteq> []"
    using that by (simp add: intermediate_location_eq as_posix_def join_sep_snoc nm sep_def)
  have str_imp: "tail (Path tmp_dir) \<noteq> [] \<longrightarrow>
      as_posix (intermediate_location tmp_dir n) =
        as_posix (Path tmp_dir) @ ''/backup_'' @ str_nat (nat n)"
    using str by (rule impI)
  have all: "\<forall>k \<le> 1000. randint 0 1000 k = int k"
    unfolding randint_def by (simp add: mod_pos_pos_trivial)
  from range have lo: "0 \<le> n" and hi: "n \<le> 1000" by simp_all
  from lo hi events par nam str_imp all show ?thesis
    by - (intro conjI, assumption+)
qed

theorem backup_notebook_intermediate_path_witness:
  "(7 :: int) = randint 0 1000 (random_draw calm_world [])
   \<and> tail (Path default_tmp_dir) \<noteq> []
   \<and> (5 :: nat) \<le> 1000
   \<and> take 2 (snd (backup_notebook calm_world ''/a/b'' ''/c/d'' default_tmp_dir [])) =
       [RandomRandint 0 1000,
        ExportWorkspace ''/a/b'' ''/dbfs/mnt/external/tmp/backup_7'' ''DBC'' False]
   \<and> as_posix (intermediate_location default_tmp_dir 7) =
       ''/dbfs/mnt/external/tmp'' @ ''/backup_'' @ ''7''
   \<and> randint 0 1000 5 = 5"
proof -
  have draw: "(7 :: int) = randint 0 1000 (random_draw calm_world [])"
    by (simp add: world_defs randint_def)
  have comps: "tail (Path default_tmp_dir) \<noteq> []"
    by (simp add: Path_def splitroot_def default_tmp_dir_def sep_def)
  have dir: "as_posix (Path default_tmp_dir) = ''/dbfs/mnt/external/tmp''"
    by (simp add: Path_def splitroot_def default_tmp_dir_def sep_def as_posix_def)
  note inst = backup_notebook_intermediate_path
    [OF draw, of "''/a/b''" "''/c/d''" default_tmp_dir]
  note rest = inst [THEN conjunct2, THEN conjunct2]
  from rest [THEN conjunct1]
  have events: "take 2 (snd (backup_notebook calm_world ''/a/b'' ''/c/d'' default_tmp_dir [])) =
      [RandomRandint 0 1000,
       ExportWorkspace ''/a/b'' (as_posix (intermediate_location default_tmp_dir 7))
         ''DBC'' False]"
    by simp
  note rest' = rest [THEN conjunct2, THEN conjunct2, THEN conjunct2]
  from rest' [THEN conjunct1, rule_format, OF comps]
  have str: "as_posix (intermediate_location default_tmp_dir 7) =
      as_posix (Path default_tmp_dir) @ ''/backup_'' @ str_nat (nat 7)" .
  have five: "(5 :: nat) \<le> 1000" by simp
  from rest' [THEN conjunct2, rule_format, OF five]
  have drawn: "randint 0 1000 5 = 5" by simp
  from events have events': "take 2
      (snd (backup_notebook calm_world ''/a/b'' ''/c/d'' default_tmp_dir [])) =
      [RandomRandint 0 1000,
       ExportWorkspace ''/a/b'' ''/dbfs/mnt/external/tmp/backup_7'' ''DBC'' False]"
    using staging_example by (simp add: randint_def)
  from str have str': "as_posix (intermediate_location default_tmp_dir 7) =
      ''/dbfs/mnt/external/tmp'' @ ''/backup_'' @ ''7''"
    by (simp only: dir str_nat_7 nat_numeral)
  from draw comps five events' str' drawn show ?thesis
    by - (intro conjI, assumption+)
qed

section \<open>Run Snapshot Orchestrator\<close>

text \<open>
  C3. Every call of \<^verbatim>\<open>export_current_notebook_run\<close> makes at most two transfer
  attempts. When the first attempt raised a remote error with error code
  \<open>RESOURCE_DOES_NOT_EXIST\<close> (and the directory call that follows returned), the call
  is the second attempt: its result, error or not, is the result of the call, and two
  attempts were made. In every other case exactly one attempt was made.
\<close>

theorem export_current_notebook_run_attempts:
  "transfer_attempts (snd (export_current_notebook_run world runs_dir t))
     \<le> transfer_attempts t + 2
   \<and> (get_notebook_path world t = Inr current_path \<longrightarrow>
        (if needs_dir (fst (first_attempt world runs_dir current_path t))
            \<and> mkdir_outcome world runs_dir current_path t = None
         then export_current_notebook_run world runs_dir t =
                second_attempt world runs_dir current_path t
              \<and> transfer_attempts (snd (export_current_notebook_run world runs_dir t)) =
                  transfer_attempts t + 2
         else transfer_attempts (snd (export_current_notebook_run world runs_dir t)) =
                transfer_attempts t + 1))"
proof -
  have bound: "transfer_attempts (snd (export_current_notebook_run world runs_dir t))
     \<le> transfer_attempts t + 2"
    by (simp add: run_unfold first_attempt_attempts second_attempt_attempts
        transfer_attempts_append mkdir_event_def split: sum.splits option.splits)
  have cases: "get_notebook_path world t = Inr current_path \<Longrightarrow>
        (if needs_dir (fst (first_attempt world runs_dir current_path t))
            \<and> mkdir_outcome world runs_dir current_path t = None
         then export_current_notebook_run world runs_dir t =
                second_attempt world runs_dir current_path t
              \<and> transfer_attempts (snd (export_current_notebook_run world runs_dir t)) =
                  transfer_attempts t + 2
         else transfer_attempts (snd (export_current_notebook_run world runs_dir t)) =
                transfer_attempts t + 1)"
    by (auto simp add: run_unfold needs_dir_def first_attempt_attempts second_attempt_attempts
        transfer_attempts_append mkdir_event_def split: sum.splits option.splits)
  from bound cases show ?thesis by blast
qed

theorem export_current_notebook_run_attempts_witness:
  "get_notebook_path always_missing_world [] = Inr ''/Users/a/nb''
   \<and> needs_dir (fst (first_attempt always_missing_world default_runs_dir ''/Users/a/nb'' []))
   \<and> mkdir_outcome always_missing_world default_runs_dir ''/Users/a/nb'' [] = None
   \<and> fst (export_current_notebook_run always_missing_world default_runs_dir []) =
        Inl (remote_error ''RESOURCE_DOES_NOT_EXIST'')
   \<and> transfer_attempts (snd (export_current_notebook_run always_missing_world default_runs_dir []))
        = 2"
proof -
  have ctx: "get_notebook_path always_missing_world [] = Inr ''/Users/a/nb''"
    by (simp add: world_defs)
  have nd: "needs_dir (fst (first_attempt always_missing_world default_runs_dir ''/Users/a/nb'' []))"
    by (simp add: first_always_missing needs_dir_def error_code_remote_error
        is_HTTPError_remote_error)
  have mk: "mkdir_outcome always_missing_world default_runs_dir ''/Users/a/nb'' [] = None"
    by (simp add: mkdir_outcome_def world_defs)
  from export_current_notebook_run_attempts
         [of always_missing_world default_runs_dir "[]" "''/Users/a/nb''"] ctx nd mk
  show ?thesis by (simp add: second_always_missing)
qed

text \<open>
  C4. When the first transfer attempt fails with a remote error whose error code is
  \<open>RESOURCE_DOES_NOT_EXIST\<close>, the next event after the first attempt is \<^verbatim>\<open>mkdirs\<close> on
  the parent of the target path, which is the target without its timestamp; one attempt
  has been made by then. The second attempt starts after that event when the directory
  call returns; when the directory call raises, its exception ends the run.
\<close>

theorem export_current_notebook_run_mkdir_first:
  assumes "get_notebook_path world t = Inr current_path"
    and "needs_dir (fst (first_attempt world runs_dir current_path t))"
  shows "take (Suc (length (snd (first_attempt world runs_dir current_path t))))
           (snd (export_current_notebook_run world runs_dir t)) =
         snd (first_attempt world runs_dir current_path t) @
           [Mkdirs (as_posix (parent (run_target world runs_dir current_path t)))]
       \<and> parent (run_target world runs_dir current_path t) =
           joinpath (Path runs_dir) (drop 1 current_path)
       \<and> transfer_attempts (snd (first_attempt world runs_dir current_path t)) =
           transfer_attempts t + 1
       \<and> (mkdir_outcome world runs_dir current_path t = None \<longrightarrow>
            export_current_notebook_run world runs_dir t =
              backup_notebook world current_path
                (as_posix (run_target world runs_dir current_path t)) default_tmp_dir
                (snd (first_attempt world runs_dir current_path t) @
                   [Mkdirs (as_posix (parent (run_target world runs_dir current_path t)))]))
       \<and> (\<forall>x. mkdir_outcome world runs_dir current_path t = Some x \<longrightarrow>
            export_current_notebook_run world runs_dir t =
              (Inl x, snd (first_attempt world runs_dir current_path t) @
                 [Mkdirs (as_posix (parent (run_target world runs_dir current_path t)))]))"
proof -
  let ?first = "first_attempt world runs_dir current_path t"
  let ?mk = "Mkdirs (as_posix (parent (run_target world runs_dir current_path t)))"
  obtain new where new: "snd (second_attempt world runs_dir current_path t) =
      (snd ?first @ [?mk]) @ new"
    unfolding second_attempt_def mkdir_event_def using backup_notebook_extends by blast
  have ok: "mkdir_outcome world runs_dir current_path t = None \<Longrightarrow>
      export_current_notebook_run world runs_dir t = second_attempt world runs_dir current_path t"
    using assms by (auto simp: run_unfold needs_dir_def split: sum.splits)
  have bad: "mkdir_outcome world runs_dir current_path t = Some x \<Longrightarrow>
      export_current_notebook_run world runs_dir t = (Inl x, snd ?first @ [?mk])" for x
    using assms by (auto simp: run_unfold needs_dir_def mkdir_event_def split: sum.splits)
  have prefix: "take (Suc (length (snd ?first)))
      (snd (export_current_notebook_run world runs_dir t)) = snd ?first @ [?mk]"
  proof (cases "mkdir_outcome world runs_dir current_path t")
    case None
    with ok new show ?thesis by simp
  next
    case (Some x)
    with bad show ?thesis by simp
  qed
  have par: "parent (run_target world runs_dir current_path t) =
      joinpath (Path runs_dir) (drop 1 current_path)"
    by (simp add: run_target_def run_timestamp_def parent_run_target_path)
  from prefix par ok bad show ?thesis
    by (simp add: first_attempt_attempts second_attempt_def mkdir_event_def)
qed

lemma first_missing_dir:
  "first_attempt missing_dir_world default_runs_dir ''/Users/a/nb'' [] =
     (Inl (remote_error ''RESOURCE_DOES_NOT_EXIST''),
      [GetNotebookPath, DatetimeNow, RandomRandint 0 1000,
       ExportWorkspace ''/Users/a/nb'' ''/dbfs/mnt/external/tmp/backup_7'' ''DBC'' False,
       ImportWorkspace ''/dbfs/mnt/external/tmp/backup_7''
         ''/Shared/runs/Users/a/nb/20240115093000'' ''PYTHON'' ''DBC'' False,
       Unlink ''/dbfs/mnt/external/tmp/backup_7''])"
  by (simp add: backup_notebook_unfold run_defs world_defs strftime_example target_example
      staging_example)

lemma second_missing_dir:
  "second_attempt missing_dir_world default_runs_dir ''/Users/a/nb'' [] =
     (Inr (),
      [GetNotebookPath, DatetimeNow, RandomRandint 0 1000,
       ExportWorkspace ''/Users/a/nb'' ''/dbfs/mnt/external/tmp/backup_7'' ''DBC'' False,
       ImportWorkspace ''/dbfs/mnt/external/tmp/backup_7''
         ''/Shared/runs/Users/a/nb/20240115093000'' ''PYTHON'' ''DBC'' False,
       Unlink ''/dbfs/mnt/external/tmp/backup_7'',
       Mkdirs ''/Shared/runs/Users/a/nb'',
       RandomRandint 0 1000,
       ExportWorkspace ''/Users/a/nb'' ''/dbfs/mnt/external/tmp/backup_7'' ''DBC'' False,
       ImportWorkspace ''/dbfs/mnt/external/tmp/backup_7''
         ''/Shared/runs/Users/a/nb/20240115093000'' ''PYTHON'' ''DBC'' False,
       Unlink ''/dbfs/mnt/external/tmp/backup_7''])"
  by (simp add: backup_notebook_unfold run_defs world_defs strftime_example target_example
      parent_example staging_example)

theorem export_current_notebook_run_mkdir_first_witness:
  "get_notebook_path missing_dir_world [] = Inr ''/Users/a/nb''
   \<and> needs_dir (fst (first_attempt missing_dir_world default_runs_dir ''/Users/a/nb'' []))
   \<and> mkdir_outcome missing_dir_world default_runs_dir ''/Users/a/nb'' [] = None
   \<and> export_current_notebook_run missing_dir_world default_runs_dir [] =
       (Inr (),
        [GetNotebookPath, DatetimeNow, RandomRandint 0 1000,
         ExportWorkspace ''/Users/a/nb'' ''/dbfs/mnt/external/tmp/backup_7'' ''DBC'' False,
         ImportWorkspace ''/dbfs/mnt/external/tmp/backup_7''
           ''/Shared/runs/Users/a/nb/20240115093000'' ''PYTHON'' ''DBC'' False,
         Unlink ''/dbfs/mnt/external/tmp/backup_7'',
         Mkdirs ''/Shared/runs/Users/a/nb'',
         RandomRandint 0 1000,
         ExportWorkspace ''/Users/a/nb'' ''/dbfs/mnt/external/tmp/backup_7'' ''DBC'' False,
         ImportWorkspace ''/dbfs/mnt/external/tmp/backup_7''
           ''/Shared/runs/Users/a/nb/20240115093000'' ''PYTHON'' ''DBC'' False,
         Unlink ''/dbfs/mnt/external/tmp/backup_7''])"
proof -
  let ?w = missing_dir_world
  have ctx: "get_notebook_path ?w [] = Inr ''/Users/a/nb''"
    by (simp add: world_defs)
  have nd: "needs_dir (fst (first_attempt ?w default_runs_dir ''/Users/a/nb'' []))"
    by (simp add: first_missing_dir needs_dir_def error_code_remote_error
        is_HTTPError_remote_error)
  have mk: "mkdir_outcome ?w default_runs_dir ''/Users/a/nb'' [] = None"
    by (simp add: mkdir_outcome_def world_defs)
  from export_current_notebook_run_mkdir_first [OF ctx nd] mk
  have "export_current_notebook_run ?w default_runs_dir [] =
      backup_notebook ?w ''/Users/a/nb''
        (as_posix (run_target ?w default_runs_dir ''/Users/a/nb'' [])) default_tmp_dir
        (snd (first_attempt ?w default_runs_dir ''/Users/a/nb'' []) @
           [Mkdirs (as_posix (parent (run_target ?w default_runs_dir ''/Users/a/nb'' [])))])"
    by blast
  also have "\<dots> = second_attempt ?w default_runs_dir ''/Users/a/nb'' []"
    by (simp add: second_attempt_def mkdir_event_def)
  finally have "export_current_notebook_run ?w default_runs_dir [] =
      second_attempt ?w default_runs_dir ''/Users/a/nb'' []" .
  with ctx nd mk show ?thesis by (simp add: second_missing_dir)
qed

text \<open>
  C5. When the first transfer attempt fails with a remote error whose error code is
  anything other than \<open>RESOURCE_DOES_NOT_EXIST\<close>, the run ends with that very exception
  and with the events of the first attempt: no directory is made and no second attempt
  follows.
\<close>

theorem export_current_notebook_run_other_code:
  assumes "get_notebook_path world t = Inr current_path"
    and "fst (first_attempt world runs_dir current_path t) = Inl e"
    and "is_HTTPError e"
    and "error_code_of e = Inr code"
    and "code \<noteq> JStr ''RESOURCE_DOES_NOT_EXIST''"
  shows "export_current_notebook_run world runs_dir t =
           (Inl e, snd (first_attempt world runs_dir current_path t))
       \<and> mkdir_calls (snd (export_current_notebook_run world runs_dir t)) = mkdir_calls t
       \<and> transfer_attempts (snd (export_current_notebook_run world runs_dir t)) =
           transfer_attempts t + 1"
proof -
  have run: "export_current_notebook_run world runs_dir t =
      first_attempt world runs_dir current_path t"
    using assms by (simp add: run_unfold)
  have mk: "mkdir_calls (snd (first_attempt world runs_dir current_path t)) = mkdir_calls t"
    by (simp add: first_attempt_def backup_notebook_mkdir_calls mkdir_calls_append)
  from run mk assms(2) show ?thesis
    by (simp add: first_attempt_attempts prod_eq_iff)
qed

lemma first_import_fails:
  "first_attempt import_fails_world default_runs_dir ''/Users/a/nb'' [] =
     (Inl (remote_error ''RESOURCE_ALREADY_EXISTS''),
      [GetNotebookPath, DatetimeNow, RandomRandint 0 1000,
       ExportWorkspace ''/Users/a/nb'' ''/dbfs/mnt/external/tmp/backup_7'' ''DBC'' False,
       ImportWorkspace ''/dbfs/mnt/external/tmp/backup_7''
         ''/Shared/runs/Users/a/nb/20240115093000'' ''PYTHON'' ''DBC'' False,
       Unlink ''/dbfs/mnt/external/tmp/backup_7''])"
  by (simp add: backup_notebook_unfold run_defs world_defs strftime_example target_example
      staging_example)

theorem export_current_notebook_run_other_code_witness:
  "get_notebook_path import_fails_world [] = Inr ''/Users/a/nb''
   \<and> fst (first_attempt import_fails_world default_runs_dir ''/Users/a/nb'' []) =
       Inl (remote_error ''RESOURCE_ALREADY_EXISTS'')
   \<and> is_HTTPError (remote_error ''RESOURCE_ALREADY_EXISTS'')
   \<and> error_code_of (remote_error ''RESOURCE_ALREADY_EXISTS'') =
       Inr (JStr ''RESOURCE_ALREADY_EXISTS'')
   \<and> JStr ''RESOURCE_ALREADY_EXISTS'' \<noteq> JStr ''RESOURCE_DOES_NOT_EXIST''
   \<and> export_current_notebook_run import_fails_world default_runs_dir [] =
       (Inl (remote_error ''RESOURCE_ALREADY_EXISTS''),
        [GetNotebookPath, DatetimeNow, RandomRandint 0 1000,
         ExportWorkspace ''/Users/a/nb'' ''/dbfs/mnt/external/tmp/backup_7'' ''DBC'' False,
         ImportWorkspace ''/dbfs/mnt/external/tmp/backup_7''
           ''/Shared/runs/Users/a/nb/20240115093000'' ''PYTHON'' ''DBC'' False,
         Unlink ''/dbfs/mnt/external/tmp/backup_7''])
   \<and> mkdir_calls (snd (export_current_notebook_run import_fails_world default_runs_dir []))
       = []"
proof -
  let ?w = import_fails_world
  have ctx: "get_notebook_path ?w [] = Inr ''/Users/a/nb''"
    by (simp add: world_defs)
  have fst1: "fst (first_attempt ?w default_runs_dir ''/Users/a/nb'' []) =
      Inl (remote_error ''RESOURCE_ALREADY_EXISTS'')"
    by (simp add: first_import_fails)
  have code: "error_code_of (remote_error ''RESOURCE_ALREADY_EXISTS'') =
      Inr (JStr ''RESOURCE_ALREADY_EXISTS'')"
    by (rule error_code_remote_error)
  have ne: "JStr ''RESOURCE_ALREADY_EXISTS'' \<noteq> JStr ''RESOURCE_DOES_NOT_EXIST''"
    by simp
  from export_current_notebook_run_other_code
         [OF ctx fst1 is_HTTPError_remote_error code ne]
  show ?thesis using ctx fst1 code ne is_HTTPError_remote_error
    by (simp add: first_import_fails)
qed

text \<open>
  C6. For a current notebook path with a leading slash, the target of a run snapshot is
  the runs directory joined with the rest of the notebook path, joined with the
  timestamp. When the rest is a relative path, the target keeps the root of the runs
  directory and its components are those of the runs directory, those of the notebook
  path and the timestamp, whatever the clock says. For \<open>/Users/a/nb\<close>,
  \<open>/Shared/runs/\<close> and 15 January 2024, 09:30:00 it is
  \<open>/Shared/runs/Users/a/nb/20240115093000\<close>. The run exports the current notebook and
  imports it at this target: when the export succeeds, the three events after the
  reading of the path and of the clock are the draw, the export of the current path and
  the import to the target.
\<close>

theorem export_current_notebook_run_target_path:
  "run_target_path runs_dir (sep # rest) timestamp =
     joinpath (joinpath (Path runs_dir) rest) timestamp
   \<and> (rest = [] \<or> hd rest \<noteq> sep \<longrightarrow>
        run_target_path runs_dir (sep # rest) (strftime_YmdHMS d) =
          \<lparr>root = root (Path runs_dir),
           tail = tail (Path runs_dir) @ tail (Path rest) @ [strftime_YmdHMS d]\<rparr>)
   \<and> as_posix (run_target_path ''/Shared/runs/'' ''/Users/a/nb''
         (strftime_YmdHMS
            \<lparr>year = 2024, month = 1, day = 15, hour = 9, minute = 30, second = 0\<rparr>)) =
       ''/Shared/runs/Users/a/nb/20240115093000''
   \<and> (get_notebook_path world t = Inr current_path
        \<and> export_outcome world current_path default_tmp_dir
              (t @ [GetNotebookPath, DatetimeNow]) = None \<longrightarrow>
        take 3 (drop (length t + 2) (snd (export_current_notebook_run world runs_dir t))) =
          import_events world current_path
            (as_posix (run_target_path runs_dir current_path
               (strftime_YmdHMS (datetime_now world (t @ [GetNotebookPath])))))
            default_tmp_dir (t @ [GetNotebookPath, DatetimeNow]))"
proof -
  have general: "run_target_path runs_dir (sep # rest) timestamp =
     joinpath (joinpath (Path runs_dir) rest) timestamp"
    by (simp add: run_target_path_def)
  have relative: "run_target_path runs_dir (sep # rest) (strftime_YmdHMS d) =
          \<lparr>root = root (Path runs_dir),
           tail = tail (Path runs_dir) @ tail (Path rest) @ [strftime_YmdHMS d]\<rparr>"
    if "rest = [] \<or> hd rest \<noteq> sep"
  proof -
    from that have "root (Path rest) = []" by (auto simp: root_Path)
    then show ?thesis
      by (simp add: run_target_path_def joinpath_def [of _ "strftime_YmdHMS d"]
          joinpath_def [of _ rest] Path_strftime)
  qed
  have example: "as_posix (run_target_path ''/Shared/runs/'' ''/Users/a/nb''
         (strftime_YmdHMS
            \<lparr>year = 2024, month = 1, day = 15, hour = 9, minute = 30, second = 0\<rparr>)) =
       ''/Shared/runs/Users/a/nb/20240115093000''"
    using strftime_example target_example
    by (simp add: snapshot_time_def default_runs_dir_def)
  have program: "take 3 (drop (length t + 2)
         (snd (export_current_notebook_run world runs_dir t))) =
          import_events world current_path
            (as_posix (run_target_path runs_dir current_path
               (strftime_YmdHMS (datetime_now world (t @ [GetNotebookPath])))))
            default_tmp_dir (t @ [GetNotebookPath, DatetimeNow])"
    if ctx: "get_notebook_path world t = Inr current_path"
      and ex: "export_outcome world current_path default_tmp_dir
              (t @ [GetNotebookPath, DatetimeNow]) = None"
  proof -
    let ?first = "first_attempt world runs_dir current_path t"
    let ?target = "as_posix (run_target_path runs_dir current_path
               (strftime_YmdHMS (datetime_now world (t @ [GetNotebookPath]))))"
    let ?ev = "import_events world current_path ?target default_tmp_dir
        (t @ [GetNotebookPath, DatetimeNow])"
    from ctx obtain new where run: "snd (export_current_notebook_run world runs_dir t) =
        snd ?first @ new"
      using run_extends_first by blast
    from ex have first: "snd ?first = (t @ [GetNotebookPath, DatetimeNow]) @ ?ev @
        [Unlink (staging_file world default_tmp_dir (t @ [GetNotebookPath, DatetimeNow]))]"
      by (simp add: first_attempt_def run_target_def run_timestamp_def backup_notebook_unfold)
    have len: "length ?ev = 3" by (simp add: import_events_def export_events_def)
    from run first len show ?thesis by simp
  qed
  from general relative example program show ?thesis by blast
qed

theorem export_current_notebook_run_target_path_witness:
  "(''Users/a/nb'' = [] \<or> hd ''Users/a/nb'' \<noteq> sep)
   \<and> get_notebook_path calm_world [] = Inr ''/Users/a/nb''
   \<and> export_outcome calm_world ''/Users/a/nb'' default_tmp_dir [GetNotebookPath, DatetimeNow]
       = None
   \<and> run_target_path default_runs_dir ''/Users/a/nb'' (strftime_YmdHMS snapshot_time) =
       \<lparr>root = ''/'', tail = [''Shared'', ''runs'', ''Users'', ''a'', ''nb'', ''20240115093000'']\<rparr>
   \<and> take 3 (drop 2 (snd (export_current_notebook_run calm_world default_runs_dir []))) =
       [RandomRandint 0 1000,
        ExportWorkspace ''/Users/a/nb'' ''/dbfs/mnt/external/tmp/backup_7'' ''DBC'' False,
        ImportWorkspace ''/dbfs/mnt/external/tmp/backup_7''
          ''/Shared/runs/Users/a/nb/20240115093000'' ''PYTHON'' ''DBC'' False]"
proof -
  have rel: "''Users/a/nb'' = [] \<or> hd ''Users/a/nb'' \<noteq> sep" by (simp add: sep_def)
  have ctx: "get_notebook_path calm_world [] = Inr ''/Users/a/nb''"
    by (simp add: world_defs)
  have ex: "export_outcome calm_world ''/Users/a/nb'' default_tmp_dir
      ([] @ [GetNotebookPath, DatetimeNow]) = None"
    by (simp add: export_outcome_def world_defs)
  have sl: "''/Users/a/nb'' = sep # ''Users/a/nb''" by (simp add: sep_def)
  note inst = export_current_notebook_run_target_path
    [of default_runs_dir "''Users/a/nb''" "''20240115093000''" snapshot_time calm_world "[]"
       "''/Users/a/nb''"]
  from inst have "hd ''Users/a/nb'' \<noteq> sep \<longrightarrow>
      run_target_path default_runs_dir (sep # ''Users/a/nb'') (strftime_YmdHMS snapshot_time) =
        \<lparr>root = root (Path default_runs_dir),
         tail = tail (Path default_runs_dir) @ tail (Path ''Users/a/nb'') @
           [strftime_YmdHMS snapshot_time]\<rparr>"
    by blast
  then have target: "run_target_path default_runs_dir ''/Users/a/nb''
      (strftime_YmdHMS snapshot_time) =
       \<lparr>root = ''/'', tail = [''Shared'', ''runs'', ''Users'', ''a'', ''nb'', ''20240115093000'']\<rparr>"
    by (simp add: sep_def strftime_example Path_def splitroot_def default_runs_dir_def)
  from inst ctx ex have "take 3 (drop (length ([] :: event list) + 2)
        (snd (export_current_notebook_run calm_world default_runs_dir []))) =
      import_events calm_world ''/Users/a/nb''
        (as_posix (run_target_path default_runs_dir ''/Users/a/nb''
           (strftime_YmdHMS (datetime_now calm_world ([] @ [GetNotebookPath])))))
        default_tmp_dir ([] @ [GetNotebookPath, DatetimeNow])"
    by blast
  then have events: "take 3 (drop 2
        (snd (export_current_notebook_run calm_world default_runs_dir []))) =
       [RandomRandint 0 1000,
        ExportWorkspace ''/Users/a/nb'' ''/dbfs/mnt/external/tmp/backup_7'' ''DBC'' False,
        ImportWorkspace ''/dbfs/mnt/external/tmp/backup_7''
          ''/Shared/runs/Users/a/nb/20240115093000'' ''PYTHON'' ''DBC'' False]"
    by (simp add: import_events_def export_events_def staging_file_def world_defs
        strftime_example target_example staging_example numeral_2_eq_2)
  from rel ctx ex target events show ?thesis by simp
qed

section \<open>Job creation\<close>

text \<open>
  C8. Calling \<^verbatim>\<open>create_job\<close> with a non-empty \<open>cluster_name\<close> and a \<open>cluster_id\<close>
  (non-empty or not) raises \<^verbatim>\<open>AssertionError\<close> with no event at all: no remote API
  call and no call of the Context Provider has been made.
\<close>

theorem create_job_both_clusters:
  assumes "cn \<noteq> []"
  shows "create_job world notebook_path job_name (Some cn) (Some ci) notifications_email t =
           (Inl AssertionError, t)"
  using assms by (simp add: create_job_def bind_def resolve_cluster_id_def raise_def)

theorem create_job_both_clusters_witness:
  "''shared-cluster'' \<noteq> []
   \<and> create_job calm_world ''foo/bar'' None (Some ''shared-cluster'') (Some ''0101-120000-abc'')
        None [] = (Inl AssertionError, [])"
proof -
  have ne: "''shared-cluster'' \<noteq> []" by simp
  from create_job_both_clusters [OF ne] ne show ?thesis by simp
qed

text \<open>
  C9. Once the cluster is settled, \<^verbatim>\<open>create_job\<close> with a relative \<open>notebook_path\<close>
  reads the current notebook path from the Context Provider and sends the job with the
  notebook path resolved against its parent: the root of the current path, its
  components but the last, then the components of \<open>notebook_path\<close>. An absolute
  \<open>notebook_path\<close> is sent as it is, and the Context Provider is not asked. With
  \<open>foo/bar\<close> and the current path \<open>/x/y/z\<close> the resolved path is \<open>/x/y/foo/bar\<close>.
\<close>

theorem create_job_resolves_relative_path:
  assumes "resolve_cluster_id world cluster_name cluster_id t = (Inr cid, t1)"
  shows "(\<not> is_absolute (Path notebook_path) \<and> get_notebook_path world t1 = Inr current_path
            \<longrightarrow>
            snd (create_job world notebook_path job_name cluster_name cluster_id
                   notifications_email t) =
              t1 @ [GetNotebookPath,
                    JobsCreateJob
                      (job_json (if truthy job_name then the job_name else notebook_path) cid
                         (as_posix (joinpath (parent (Path current_path)) notebook_path))
                         notifications_email)]
            \<and> joinpath (parent (Path current_path)) notebook_path =
                \<lparr>root = root (Path current_path),
                 tail = butlast (tail (Path current_path)) @ tail (Path notebook_path)\<rparr>)
       \<and> (is_absolute (Path notebook_path) \<longrightarrow>
            snd (create_job world notebook_path job_name cluster_name cluster_id
                   notifications_email t) =
              t1 @ [JobsCreateJob
                      (job_json (if truthy job_name then the job_name else notebook_path) cid
                         notebook_path notifications_email)])
       \<and> as_posix (joinpath (parent (Path ''/x/y/z'')) ''foo/bar'') = ''/x/y/foo/bar''"
  using create_job_unfold [OF assms] joinpath_parent_relative resolve_example
  by simp

theorem create_job_resolves_relative_path_witness:
  "resolve_cluster_id job_world None None [] =
     (Inr ''0101-120000-abc'', [GetNotebookClusterId])
   \<and> \<not> is_absolute (Path ''foo/bar'')
   \<and> get_notebook_path job_world [GetNotebookClusterId] = Inr ''/x/y/z''
   \<and> snd (create_job job_world ''foo/bar'' (Some ''nightly'') None None None []) =
       [GetNotebookClusterId, GetNotebookPath,
        JobsCreateJob (job_json ''nightly'' ''0101-120000-abc'' ''/x/y/foo/bar'' None)]"
proof -
  have ctx: "get_notebook_path job_world [GetNotebookClusterId] = Inr ''/x/y/z''"
    by (simp add: world_defs)
  note inst = create_job_resolves_relative_path
    [OF cluster_job_world, of "''foo/bar''" "''/x/y/z''" "Some ''nightly''" None]
  from inst [THEN conjunct1, rule_format, OF conjI, OF relative_example ctx, THEN conjunct1]
  have "snd (create_job job_world ''foo/bar'' (Some ''nightly'') None None None []) =
       [GetNotebookClusterId, GetNotebookPath,
        JobsCreateJob (job_json ''nightly'' ''0101-120000-abc''
          (as_posix (joinpath (parent (Path ''/x/y/z'')) ''foo/bar'')) None)]"
    by simp
  then have "snd (create_job job_world ''foo/bar'' (Some ''nightly'') None None None []) =
       [GetNotebookClusterId, GetNotebookPath,
        JobsCreateJob (job_json ''nightly'' ''0101-120000-abc'' ''/x/y/foo/bar'' None)]"
    by (simp only: resolve_example)
  with cluster_job_world relative_example ctx show ?thesis
    by - (intro conjI, assumption+)
qed

text \<open>
  C10. Once the cluster is settled, \<^verbatim>\<open>create_job\<close> without a job name (\<^verbatim>\<open>None\<close> or
  the empty string) names the job with \<open>notebook_path\<close> exactly as passed. For a relative
  \<open>notebook_path\<close> the name is the relative string while the notebook path of the task is
  the resolved one, which starts with a slash, and so differs from the name, when the
  current notebook path is absolute. For an absolute \<open>notebook_path\<close> both are that path.
\<close>

theorem create_job_default_name:
  assumes "\<not> truthy job_name"
    and "resolve_cluster_id world cluster_name cluster_id t = (Inr cid, t1)"
  shows "(\<not> is_absolute (Path notebook_path) \<and> get_notebook_path world t1 = Inr current_path
            \<longrightarrow>
            snd (create_job world notebook_path job_name cluster_name cluster_id
                   notifications_email t) =
              t1 @ [GetNotebookPath,
                    JobsCreateJob
                      (job_json notebook_path cid
                         (as_posix (joinpath (parent (Path current_path)) notebook_path))
                         notifications_email)]
            \<and> (is_absolute (Path current_path) \<longrightarrow>
                 hd (as_posix (joinpath (parent (Path current_path)) notebook_path)) = sep
                 \<and> as_posix (joinpath (parent (Path current_path)) notebook_path)
                     \<noteq> notebook_path))
       \<and> (is_absolute (Path notebook_path) \<longrightarrow>
            snd (create_job world notebook_path job_name cluster_name cluster_id
                   notifications_email t) =
              t1 @ [JobsCreateJob
                      (job_json notebook_path cid notebook_path notifications_email)])
       \<and> subscript (job_json jname cid resolved notifications_email) ''name'' =
           Inr (JStr jname)
       \<and> subscript (job_json jname cid resolved notifications_email) ''notebook_task'' =
           Inr (JObj [(''notebook_path'', JStr resolved)])"
proof -
  have differs: "hd (as_posix (joinpath (parent (Path current_path)) notebook_path)) = sep
      \<and> as_posix (joinpath (parent (Path current_path)) notebook_path) \<noteq> notebook_path"
    if rel: "\<not> is_absolute (Path notebook_path)" and ab: "is_absolute (Path current_path)"
  proof -
    from resolved_is_absolute [OF rel ab]
    have ne: "as_posix (joinpath (parent (Path current_path)) notebook_path) \<noteq> []"
      and hd: "hd (as_posix (joinpath (parent (Path current_path)) notebook_path)) = sep"
      by simp_all
    from rel have "notebook_path = [] \<or> hd notebook_path \<noteq> sep"
      by (simp add: is_absolute_Path)
    with ne hd show ?thesis by auto
  qed
  have fields: "subscript (job_json jname cid resolved notifications_email) ''name'' =
           Inr (JStr jname)
       \<and> subscript (job_json jname cid resolved notifications_email) ''notebook_task'' =
           Inr (JObj [(''notebook_path'', JStr resolved)])"
    by (simp add: subscript_def job_json_def)
  from create_job_unfold [OF assms(2)] assms(1) differs fields show ?thesis
    by simp
qed

theorem create_job_default_name_witness:
  "\<not> truthy None
   \<and> resolve_cluster_id job_world None None [] =
       (Inr ''0101-120000-abc'', [GetNotebookClusterId])
   \<and> \<not> is_absolute (Path ''foo/bar'')
   \<and> get_notebook_path job_world [GetNotebookClusterId] = Inr ''/x/y/z''
   \<and> is_absolute (Path ''/x/y/z'')
   \<and> snd (create_job job_world ''foo/bar'' None None None None []) =
       [GetNotebookClusterId, GetNotebookPath,
        JobsCreateJob (job_json ''foo/bar'' ''0101-120000-abc'' ''/x/y/foo/bar'' None)]
   \<and> ''/x/y/foo/bar'' \<noteq> ''foo/bar''"
proof -
  have nt: "\<not> truthy None" by simp
  have ctx: "get_notebook_path job_world [GetNotebookClusterId] = Inr ''/x/y/z''"
    by (simp add: world_defs)
  have ab: "is_absolute (Path ''/x/y/z'')"
    by (simp add: is_absolute_Path sep_def)
  note inst = create_job_default_name
    [OF nt cluster_job_world, of "''foo/bar''" "''/x/y/z''" None]
  note rel = inst [THEN conjunct1, rule_format, OF conjI, OF relative_example ctx]
  from rel [THEN conjunct1]
  have ev: "snd (create_job job_world ''foo/bar'' None None None None []) =
       [GetNotebookClusterId, GetNotebookPath,
        JobsCreateJob (job_json ''foo/bar'' ''0101-120000-abc'' ''/x/y/foo/bar'' None)]"
    by (simp add: resolve_example)
  from rel [THEN conjunct2, rule_format, OF ab]
  have ne: "''/x/y/foo/bar'' \<noteq> ''foo/bar''"
    by (simp add: resolve_example)
  from nt cluster_job_world relative_example ctx ab ev ne show ?thesis
    by - (intro conjI, assumption+)
qed

end
